theory Spec2Isabelle
  imports Main "HOL-Library.AList"
begin

section \<open>Python exceptions\<close>

text \<open>
  Every \<^verbatim>\<open>raise\<close>, failed \<^verbatim>\<open>assert\<close> and failed attribute or key lookup of
  \<^verbatim>\<open>state.py\<close> is a value of this type. A method that mutates its object returns the
  pair of its outcome (\<open>Inl\<close> the exception) and the object as the call leaves it, so
  that what a raising call has already changed stays visible. The \<^verbatim>\<open>try/except\<close>
  blocks of the source print a diagnostic and re-raise the same exception; the printing
  is not modelled.
\<close>

datatype error =
    ValueError
  | TypeError
  | AttributeError string
  | KeyError string
  | AssertionError
  | NotImplementedError
  | SizeMismatchError
  | ShapeMismatchError

section \<open>The host mirror (\<^verbatim>\<open>NpNdarrayDict\<close>) and the device field\<close>

text \<open>
  A schema maps an attribute name to the triple (element type, min, max), in declaration
  order. All three entries are Python objects, of one type \<open>'v\<close> here. A struct of
  arrays holds, per attribute and in schema order, the flattened elements of that
  attribute; the scalars are of type \<open>'a\<close> and are only ever copied.
\<close>

type_synonym 'v schema = "(string \<times> ('v \<times> 'v \<times> 'v)) list"

type_synonym 'a arrays = "(string \<times> 'a list) list"

text \<open>A host element type is represented by its number of scalars per instance.\<close>

type_synonym nptype = nat

record ('v, 'a) NpNdarrayDict =
  nd_dict :: "(string \<times> (nptype \<times> 'v \<times> 'v)) list"
  nd_shape :: "nat list"
  data :: "'a arrays"

definition layout_of :: "'a arrays \<Rightarrow> (string \<times> nat) list" where
  "layout_of d = map (\<lambda>(k, xs). (k, length xs)) d"

text \<open>
  Modelled from the spec: the module \<^verbatim>\<open>npndarray_dict\<close> (class \<^verbatim>\<open>NpNdarrayDict\<close>) is
  imported by \<^verbatim>\<open>state.py\<close> and is not among the sources. The spec gives the mirror one
  array per declared attribute, and the size as the sum over the attributes of
  elements-per-instance times the instances implied by the shape.
\<close>

definition nd_layout :: "('v, 'a) NpNdarrayDict \<Rightarrow> (string \<times> nat) list" where
  "nd_layout m = map (\<lambda>(k, (n, mn, mx)). (k, n * prod_list (nd_shape m))) (nd_dict m)"

definition nd_size :: "('v, 'a) NpNdarrayDict \<Rightarrow> nat" where
  "nd_size m = sum_list (map snd (nd_layout m))"

text \<open>
  Modelled from the spec: the constructor of the absent \<^verbatim>\<open>NpNdarrayDict\<close>; a fresh
  array holds the value \<open>fill\<close> in every cell.
\<close>

definition NpNdarrayDict_init ::
  "'a \<Rightarrow> (string \<times> (nptype \<times> 'v \<times> 'v)) list \<Rightarrow> nat list \<Rightarrow> ('v, 'a) NpNdarrayDict" where
  "NpNdarrayDict_init fill nddict shp =
     \<lparr>nd_dict = nddict, nd_shape = shp,
      data = map (\<lambda>(k, (n, mn, mx)). (k, replicate (n * prod_list shp) fill)) nddict\<rparr>"

text \<open>
  Modelled from the spec: \<^verbatim>\<open>get_data\<close> and \<^verbatim>\<open>set_data\<close> of the absent mirror, the bulk
  get and set against a device-compatible layout; a layout that disagrees with the
  declared one is the spec's ShapeMismatchError.
\<close>

definition nd_get_data :: "('v, 'a) NpNdarrayDict \<Rightarrow> 'a arrays" where
  "nd_get_data m = data m"

definition nd_set_data :: "('v, 'a) NpNdarrayDict \<Rightarrow> 'a arrays \<Rightarrow> error + ('v, 'a) NpNdarrayDict" where
  "nd_set_data m d =
     (if layout_of d = nd_layout m then Inr (m\<lparr>data := d\<rparr>) else Inl ShapeMismatchError)"

text \<open>Cutting a vector into consecutive chunks, one per attribute of a layout.\<close>

fun unflatten :: "(string \<times> nat) list \<Rightarrow> 'a list \<Rightarrow> 'a arrays" where
  "unflatten [] vec = []"
| "unflatten ((k, n) # l) vec = (k, take n vec) # unflatten l (drop n vec)"

text \<open>
  Modelled from the spec: the whole-block codecs of the absent mirror. They address every
  attribute of every instance in schema declaration order, and the load fails with the
  spec's SizeMismatchError, before any write, when the vector's length is not the size.
\<close>

definition nd_to_vec :: "('v, 'a) NpNdarrayDict \<Rightarrow> 'a list" where
  "nd_to_vec m = concat (map snd (data m))"

definition nd_from_vec :: "('v, 'a) NpNdarrayDict \<Rightarrow> 'a list \<Rightarrow> error + ('v, 'a) NpNdarrayDict" where
  "nd_from_vec m vec =
     (if length vec \<noteq> nd_size m then Inl SizeMismatchError
      else Inr (m\<lparr>data := unflatten (nd_layout m) vec\<rparr>))"

text \<open>
  Modelled from the spec: \<^verbatim>\<open>randomise\<close> of the absent mirror fills every array in place;
  the value drawn for cell \<open>i\<close> of attribute \<open>k\<close> with bounds \<open>mn\<close>, \<open>mx\<close> is
  \<open>draw k mn mx i\<close>.
\<close>

definition nd_randomise ::
  "(string \<Rightarrow> 'v \<Rightarrow> 'v \<Rightarrow> nat \<Rightarrow> 'a) \<Rightarrow> ('v, 'a) NpNdarrayDict \<Rightarrow> ('v, 'a) NpNdarrayDict" where
  "nd_randomise draw m =
     m\<lparr>data := map (\<lambda>(k, (n, mn, mx)).
          (k, map (draw k mn mx) [0 ..< n * prod_list (nd_shape m)])) (nd_dict m)\<rparr>"

text \<open>
  Modelled from the spec: the bulk copy primitives of the compute backend
  (\<^verbatim>\<open>field.from_numpy\<close>, \<^verbatim>\<open>field.to_numpy\<close>). The device field is a struct of arrays whose
  layout is fixed at allocation.
\<close>

definition field_from_numpy :: "'a arrays \<Rightarrow> 'a arrays \<Rightarrow> error + 'a arrays" where
  "field_from_numpy fld d =
     (if layout_of d = layout_of fld then Inr d else Inl ShapeMismatchError)"

definition field_to_numpy :: "'a arrays \<Rightarrow> 'a arrays" where
  "field_to_numpy fld = fld"

section \<open>External collaborators\<close>

text \<open>
  What \<^verbatim>\<open>state.py\<close> consumes and does not define is a parameter of the model, gathered in
  one record that every function takes first:
  \<^item> \<open>TiNpTypeMap\<close>: the table of \<^verbatim>\<open>npndarray_dict\<close> from device element types to host
    element types (\<open>None\<close> where \<^verbatim>\<open>TiNpTypeMap.get\<close> returns \<^verbatim>\<open>None\<close>);
  \<^item> \<open>ti_struct_field\<close>: \<^verbatim>\<open>ti.types.struct(...).field(shape=...)\<close> of the compute
    backend, from the attribute types, the optional methods and the shape;
  \<^item> \<open>np_fill\<close>, \<open>np_draw\<close>: the initial cell value and the random draws of the mirror;
  \<^item> \<open>py_int\<close>: Python's \<^verbatim>\<open>int(...)\<close> on a schema entry;
  \<^item> \<open>pascal_to_path\<close>: the routing layer's translation of a name to a route;
  \<^item> \<open>call_member\<close>: the call of a looked-up member on \<^verbatim>\<open>((i, j), attribute)\<close>;
  \<^item> the per-attribute and slice codecs of the mirror (\<^verbatim>\<open>attr_from_vec\<close> and so on).
\<close>

datatype member = Member string

record ('v, 'a) ext =
  TiNpTypeMap :: "'v \<Rightarrow> nptype option"
  ti_struct_field :: "(string \<times> 'v) list \<Rightarrow> 'v option \<Rightarrow> nat list \<Rightarrow> error + 'a arrays"
  np_fill :: "'a"
  np_draw :: "string \<Rightarrow> 'v \<Rightarrow> 'v \<Rightarrow> nat \<Rightarrow> 'a"
  py_int :: "'v \<Rightarrow> error + int"
  pascal_to_path :: "string \<Rightarrow> string"
  call_member :: "member \<Rightarrow> int \<times> int \<Rightarrow> string \<Rightarrow> error + 'a option"
  np_attr_from_vec :: "('v, 'a) NpNdarrayDict \<Rightarrow> string \<Rightarrow> 'a list \<Rightarrow> error + ('v, 'a) NpNdarrayDict"
  np_attr_to_vec :: "('v, 'a) NpNdarrayDict \<Rightarrow> string \<Rightarrow> error + 'a list"
  np_slice_from_vec :: "('v, 'a) NpNdarrayDict \<Rightarrow> int list \<Rightarrow> 'a list \<Rightarrow> error + ('v, 'a) NpNdarrayDict"
  np_slice_to_vec :: "('v, 'a) NpNdarrayDict \<Rightarrow> int list \<Rightarrow> error + 'a list"
  np_attr_slice_from_vec ::
    "('v, 'a) NpNdarrayDict \<Rightarrow> string \<Rightarrow> int list \<Rightarrow> 'a list \<Rightarrow> error + ('v, 'a) NpNdarrayDict"
  np_attr_slice_to_vec :: "('v, 'a) NpNdarrayDict \<Rightarrow> string \<Rightarrow> int list \<Rightarrow> error + 'a list"

section \<open>The session context: mapping layer and routing layer\<close>

text \<open>
  The routing layer records what is registered with \<^verbatim>\<open>osc.map\<close>, in call order, and
  what is sent through \<^verbatim>\<open>osc.host.return_to_sender_by_name\<close>. The mapping layer records
  the names given to \<^verbatim>\<open>iml.add_instance\<close>. A layer that is \<^verbatim>\<open>False\<close> in the context is
  \<open>None\<close>.
\<close>

datatype kwval = Ints "int \<times> int \<times> int" | Strs "string \<times> string \<times> string"

datatype lenarg = LenConst nat | LenMember member

datatype reg =
    Args_inline string member "(string \<times> kwval) list"
  | List_with_idx string member nat lenarg "string option"

record 'a osc_layer =
  routes :: "reg list"
  sent :: "((string \<times> string \<times> 'a) \<times> string) list"
  client_name :: string

record 'a tolvera =
  name_clean :: string
  tv_iml :: "string list option"
  tv_osc :: "'a osc_layer option"

section \<open>A state block (\<^verbatim>\<open>class State\<close>)\<close>

datatype flag = FStr string | FTuple "string list"

datatype shape_arg = ShInt nat | ShTuple "nat list"

text \<open>
  \<^verbatim>\<open>self.iml\<close> and \<^verbatim>\<open>self.osc\<close> hold the boolean \<^verbatim>\<open>enabled\<close> first and the context's
  layer object once the mapping is set up.
\<close>

datatype layer = Flag bool | Layer

text \<open>What \<^verbatim>\<open>self.tv\<close> refers to: the session context, or some other object.\<close>

datatype ctxref = Context | NoContext

record ('v, 'a) State =
  tv :: ctxref
  name :: string
  dict :: "'v schema"
  shape :: "nat list"
  field :: "'a arrays"
  nddict :: "('v, 'a) NpNdarrayDict"
  size' :: nat
  setter_name :: string
  getter_name :: string
  iml :: layer
  iml_get :: bool
  iml_set :: bool
  osc :: layer
  osc_get :: bool
  osc_set :: bool

text \<open>
  The names \<^verbatim>\<open>class State\<close> defines (its methods, in source order) and the attributes
  its methods assign. \<^verbatim>\<open>State\<close> has no base class and no \<^verbatim>\<open>__getattr__\<close>, so the
  lookup of any other name on a block raises AttributeError.
\<close>

definition State_members :: "string list" where
  "State_members =
     [''__init__'', ''setup_data'', ''create_struct_field'', ''create_npndarray_dict'',
      ''randomise'', ''setup_accessors'', ''handle_accessor_flags'', ''handle_get_set'',
      ''setup_iml_mapping'', ''add_iml_setters'', ''add_iml_getters'', ''setup_osc_mapping'',
      ''add_osc_setters'', ''add_osc_getters'', ''osc_getter'', ''add_iml_osc_setters'',
      ''add_iml_osc_getters'', ''serialize'', ''deserialize'', ''save'', ''load'',
      ''from_nddict'', ''to_nddict'', ''from_vec'', ''to_vec'', ''attr_from_vec'',
      ''attr_to_vec'', ''slice_from_vec'', ''slice_to_vec'', ''attr_slice_from_vec'',
      ''attr_slice_to_vec'', ''attr_size'', ''__getitem__'', ''__call__'',
      ''tv'', ''name'', ''dict'', ''shape'', ''methods'', ''struct'', ''field'', ''nddict'',
      ''size'', ''setter_name'', ''getter_name'', ''iml'', ''iml_get'', ''iml_set'',
      ''osc'', ''osc_get'', ''osc_set'']"

definition State_getattr :: "string \<Rightarrow> error + member" where
  "State_getattr nm =
     (if nm \<in> set State_members then Inr (Member nm) else Inl (AttributeError nm))"

subsection \<open>Synchronisation between device field and host mirror\<close>

definition State_from_nddict :: "('v, 'a) State \<Rightarrow> (error + unit) \<times> ('v, 'a) State" where
  "State_from_nddict s =
     (case field_from_numpy (field s) (nd_get_data (nddict s)) of
        Inl e \<Rightarrow> (Inl e, s)
      | Inr f \<Rightarrow> (Inr (), s\<lparr>field := f\<rparr>))"

definition State_to_nddict :: "('v, 'a) State \<Rightarrow> (error + unit) \<times> ('v, 'a) State" where
  "State_to_nddict s =
     (case nd_set_data (nddict s) (field_to_numpy (field s)) of
        Inl e \<Rightarrow> (Inl e, s)
      | Inr m \<Rightarrow> (Inr (), s\<lparr>nddict := m\<rparr>))"

definition State_randomise :: "('v, 'a) ext \<Rightarrow> ('v, 'a) State \<Rightarrow> (error + unit) \<times> ('v, 'a) State" where
  "State_randomise x s = State_from_nddict (s\<lparr>nddict := nd_randomise (np_draw x) (nddict s)\<rparr>)"

subsection \<open>Vector codecs (the \<^verbatim>\<open>npndarray_dict\<close> wrappers)\<close>

text \<open>
  Each codec is written as in the source: \<^verbatim>\<open>self.to_nddict()\<close>, the mirror's codec on
  \<^verbatim>\<open>self.nddict\<close>, and for a writing codec \<^verbatim>\<open>self.from_nddict()\<close>. A call that raises
  leaves the block as the steps before it made it.
\<close>

definition State_from_vec ::
  "('v, 'a) State \<Rightarrow> 'a list \<Rightarrow> (error + unit) \<times> ('v, 'a) State" where
  "State_from_vec s vec =
     (case State_to_nddict s of
        (Inl e, s1) \<Rightarrow> (Inl e, s1)
      | (Inr u, s1) \<Rightarrow>
          (case nd_from_vec (nddict s1) vec of
             Inl e \<Rightarrow> (Inl e, s1)
           | Inr m \<Rightarrow> State_from_nddict (s1\<lparr>nddict := m\<rparr>)))"

definition State_to_vec ::
  "('v, 'a) State \<Rightarrow> (error + 'a list) \<times> ('v, 'a) State" where
  "State_to_vec s =
     (case State_to_nddict s of
        (Inl e, s1) \<Rightarrow> (Inl e, s1)
      | (Inr u, s1) \<Rightarrow> (Inr (nd_to_vec (nddict s1)), s1))"







subsection \<open>Accessor generation\<close>

text \<open>Running the next step on what the previous one left, unless it raised.\<close>

definition and_then :: "(error + unit) \<times> 's \<Rightarrow> ('s \<Rightarrow> (error + unit) \<times> 's) \<Rightarrow> (error + unit) \<times> 's" where
  "and_then r f = (case r of (Inl e, st) \<Rightarrow> (Inl e, st) | (Inr u, st) \<Rightarrow> f st)"

definition State_handle_get_set :: "flag option \<Rightarrow> bool \<times> bool \<times> bool" where
  "State_handle_get_set flg =
     (let enabled = (flg \<noteq> None);
          flg' = (case flg of Some (FStr f) \<Rightarrow> Some (FTuple [f]) | _ \<Rightarrow> flg);
          get = (if enabled
                 then (case flg' of Some (FTuple t) \<Rightarrow> ''get'' \<in> set t | _ \<Rightarrow> False)
                 else False);
          set' = (if enabled
                  then (case flg' of Some (FTuple t) \<Rightarrow> ''set'' \<in> set t | _ \<Rightarrow> False)
                  else False)
      in (enabled, get, set'))"

definition State_handle_accessor_flags ::
  "('v, 'a) State \<Rightarrow> flag option \<Rightarrow> flag option \<Rightarrow> ('v, 'a) State" where
  "State_handle_accessor_flags s iml_flag osc_flag =
     (case State_handle_get_set iml_flag of (e1, g1, s1) \<Rightarrow>
      case State_handle_get_set osc_flag of (e2, g2, s2) \<Rightarrow>
        s\<lparr>iml := Flag e1, iml_get := g1, iml_set := s1,
          osc := Flag e2, osc_get := g2, osc_set := s2\<rparr>)"

text \<open>
  \<^verbatim>\<open>self.iml.add_instance(nm)\<close>: \<^verbatim>\<open>self.iml\<close> has to be the context's mapping layer.
\<close>

definition iml_add_instance ::
  "string \<Rightarrow> 'a tolvera \<times> ('v, 'a) State \<Rightarrow> (error + unit) \<times> 'a tolvera \<times> ('v, 'a) State" where
  "iml_add_instance nm ws =
     (case (iml (snd ws), tv_iml (fst ws)) of
        (Layer, Some l) \<Rightarrow> (Inr (), ((fst ws)\<lparr>tv_iml := Some (l @ [nm])\<rparr>, snd ws))
      | _ \<Rightarrow> (Inl (AttributeError ''add_instance''), ws))"

definition State_add_iml_setters ::
  "'a tolvera \<times> ('v, 'a) State \<Rightarrow> (error + unit) \<times> 'a tolvera \<times> ('v, 'a) State" where
  "State_add_iml_setters ws = iml_add_instance (setter_name (snd ws) @ []) ws"

definition State_add_iml_getters ::
  "'a tolvera \<times> ('v, 'a) State \<Rightarrow> (error + unit) \<times> 'a tolvera \<times> ('v, 'a) State" where
  "State_add_iml_getters ws = iml_add_instance (getter_name (snd ws) @ []) ws"

definition State_setup_iml_mapping ::
  "'a tolvera \<times> ('v, 'a) State \<Rightarrow> (error + unit) \<times> 'a tolvera \<times> ('v, 'a) State" where
  "State_setup_iml_mapping ws =
     (let ws1 = (fst ws, (snd ws)\<lparr>iml := (case tv_iml (fst ws) of None \<Rightarrow> Flag False | Some l \<Rightarrow> Layer)\<rparr>)
      in and_then (if iml_set (snd ws1) then State_add_iml_setters ws1 else (Inr (), ws1))
           (\<lambda>ws2. if iml_get (snd ws2) then State_add_iml_getters ws2 else (Inr (), ws2)))"

text \<open>
  \<^verbatim>\<open>self.osc.map\<close>: \<^verbatim>\<open>self.osc\<close> has to be the context's routing layer. A registration
  appends to the layer's routes.
\<close>

definition osc_map :: "'a tolvera \<times> ('v, 'a) State \<Rightarrow> error + 'a osc_layer" where
  "osc_map ws =
     (case (osc (snd ws), tv_osc (fst ws)) of
        (Layer, Some ol) \<Rightarrow> Inr ol
      | _ \<Rightarrow> Inl (AttributeError ''map''))"

definition register ::
  "reg \<Rightarrow> 'a osc_layer \<Rightarrow> 'a tolvera \<times> ('v, 'a) State \<Rightarrow> (error + unit) \<times> 'a tolvera \<times> ('v, 'a) State" where
  "register rg ol ws = (Inr (), ((fst ws)\<lparr>tv_osc := Some (ol\<lparr>routes := routes ol @ [rg]\<rparr>)\<rparr>, snd ws))"

text \<open>
  One call \<^verbatim>\<open>f(route, self.<handler>, nidx, <len>, [k])\<close> with
  \<^verbatim>\<open>f = self.osc.map.receive_list_with_idx\<close>: the arguments are evaluated left to right,
  the handler by attribute lookup on the block, the length either a literal (\<open>Inl\<close>) or
  \<^verbatim>\<open>getattr(self, ...)\<close> (\<open>Inr\<close>).
\<close>

definition receive_list_with_idx ::
  "string \<Rightarrow> string \<Rightarrow> nat \<Rightarrow> nat + string \<Rightarrow> string option
     \<Rightarrow> 'a tolvera \<times> ('v, 'a) State \<Rightarrow> (error + unit) \<times> 'a tolvera \<times> ('v, 'a) State" where
  "receive_list_with_idx route handler nidx ln attr ws =
     (case osc_map ws of
        Inl e \<Rightarrow> (Inl e, ws)
      | Inr ol \<Rightarrow>
         (case State_getattr handler of
            Inl e \<Rightarrow> (Inl e, ws)
          | Inr h \<Rightarrow>
             (case ln of
                Inl n \<Rightarrow> register (List_with_idx route h nidx (LenConst n) attr) ol ws
              | Inr l \<Rightarrow>
                 (case State_getattr l of
                    Inl e \<Rightarrow> (Inl e, ws)
                  | Inr lm \<Rightarrow> register (List_with_idx route h nidx (LenMember lm) attr) ol ws))))"

text \<open>The loop over the schema in \<^verbatim>\<open>add_osc_setters\<close>.\<close>

fun attr_setters ::
  "string \<Rightarrow> string list \<Rightarrow> 'a tolvera \<times> ('v, 'a) State \<Rightarrow> (error + unit) \<times> 'a tolvera \<times> ('v, 'a) State" where
  "attr_setters nm [] ws = (Inr (), ws)"
| "attr_setters nm (k # ks) ws =
     and_then (receive_list_with_idx (nm @ ''_'' @ k @ ''_idx'') ''set_attr_idx'' 2 (Inl 1) (Some k) ws)
    (\<lambda>ws. and_then (receive_list_with_idx (nm @ ''_'' @ k @ ''_row'') ''set_attr_row'' 1 (Inr ''len_attr_row'') (Some k) ws)
    (\<lambda>ws. and_then (receive_list_with_idx (nm @ ''_'' @ k @ ''_col'') ''set_attr_col'' 1 (Inr ''len_attr_col'') (Some k) ws)
    (\<lambda>ws. and_then (receive_list_with_idx (nm @ ''_'' @ k @ ''_all'') ''set_attr_all'' 0 (Inr ''len_attr_all'') (Some k) ws)
    (\<lambda>ws. attr_setters nm ks ws))))"

definition State_add_osc_setters ::
  "'a tolvera \<times> ('v, 'a) State \<Rightarrow> (error + unit) \<times> 'a tolvera \<times> ('v, 'a) State" where
  "State_add_osc_setters ws =
     (let nm = setter_name (snd ws) in
        and_then
          (case osc_map ws of
             Inl e \<Rightarrow> (Inl e, ws)
           | Inr ol \<Rightarrow>
              (case State_getattr ''_randomise'' of
                 Inl e \<Rightarrow> (Inl e, ws)
               | Inr h \<Rightarrow> register (Args_inline (nm @ ''_randomise'') h []) ol ws))
       (\<lambda>ws. and_then (receive_list_with_idx (nm @ ''_idx'') ''set_state_idx_from_list'' 2 (Inr ''len_state_idx'') None ws)
       (\<lambda>ws. and_then (receive_list_with_idx (nm @ ''_row'') ''set_state_row_from_list'' 1 (Inr ''len_state_row'') None ws)
       (\<lambda>ws. and_then (receive_list_with_idx (nm @ ''_col'') ''set_state_col_from_list'' 1 (Inr ''len_state_col'') None ws)
       (\<lambda>ws. and_then (receive_list_with_idx (nm @ ''_all'') ''set_state_all_from_list'' 0 (Inr ''len_state_all'') None ws)
       (\<lambda>ws. attr_setters nm (map fst (dict (snd ws))) ws))))))"

text \<open>\<^verbatim>\<open>ranges = (int(v[0]), int(v[0]), int(v[1]))\<close> for a schema triple \<open>v\<close>.\<close>

definition getter_ranges :: "('v, 'a) ext \<Rightarrow> 'v \<times> 'v \<times> 'v \<Rightarrow> error + int \<times> int \<times> int" where
  "getter_ranges x v =
     (case py_int x (fst v) of
        Inl e \<Rightarrow> Inl e
      | Inr a \<Rightarrow>
         (case py_int x (fst v) of
            Inl e \<Rightarrow> Inl e
          | Inr b \<Rightarrow>
             (case py_int x (fst (snd v)) of
                Inl e \<Rightarrow> Inl e
              | Inr c \<Rightarrow> Inr (a, b, c))))"

fun osc_getters_loop ::
  "('v, 'a) ext \<Rightarrow> string \<Rightarrow> 'v schema \<Rightarrow> 'a tolvera \<times> ('v, 'a) State
     \<Rightarrow> (error + unit) \<times> 'a tolvera \<times> ('v, 'a) State" where
  "osc_getters_loop x nm [] ws = (Inr (), ws)"
| "osc_getters_loop x nm ((k, v) # kvs) ws =
     (case getter_ranges x v of
        Inl e \<Rightarrow> (Inl e, ws)
      | Inr ranges \<Rightarrow>
         (let kwargs = [(''i'', Ints ranges), (''j'', Ints ranges), (''attr'', Strs (k, k, k))] in
          case osc_map ws of
            Inl e \<Rightarrow> (Inl e, ws)
          | Inr ol \<Rightarrow>
             (case State_getattr ''osc_getter'' of
                Inl e \<Rightarrow> (Inl e, ws)
              | Inr h \<Rightarrow>
                  and_then (register (Args_inline nm h kwargs) ol ws)
                    (\<lambda>ws. osc_getters_loop x nm kvs ws))))"

definition State_add_osc_getters ::
  "('v, 'a) ext \<Rightarrow> 'a tolvera \<times> ('v, 'a) State \<Rightarrow> (error + unit) \<times> 'a tolvera \<times> ('v, 'a) State" where
  "State_add_osc_getters x ws = osc_getters_loop x (getter_name (snd ws)) (dict (snd ws)) ws"

text \<open>Both bodies only bind a local name.\<close>

definition State_add_iml_osc_setters ::
  "'a tolvera \<times> ('v, 'a) State \<Rightarrow> (error + unit) \<times> 'a tolvera \<times> ('v, 'a) State" where
  "State_add_iml_osc_setters ws = (Inr (), ws)"

definition State_add_iml_osc_getters ::
  "'a tolvera \<times> ('v, 'a) State \<Rightarrow> (error + unit) \<times> 'a tolvera \<times> ('v, 'a) State" where
  "State_add_iml_osc_getters ws = (Inr (), ws)"

definition State_setup_osc_mapping ::
  "('v, 'a) ext \<Rightarrow> 'a tolvera \<times> ('v, 'a) State \<Rightarrow> (error + unit) \<times> 'a tolvera \<times> ('v, 'a) State" where
  "State_setup_osc_mapping x ws =
     (let ws1 = (fst ws, (snd ws)\<lparr>osc := (case tv_osc (fst ws) of None \<Rightarrow> Flag False | Some ol \<Rightarrow> Layer)\<rparr>)
      in and_then
           (if osc_set (snd ws1)
            then and_then (State_add_osc_setters ws1)
                   (\<lambda>ws2. if iml_set (snd ws2) then State_add_iml_osc_setters ws2 else (Inr (), ws2))
            else (Inr (), ws1))
           (\<lambda>ws3. if osc_get (snd ws3)
                  then and_then (State_add_osc_getters x ws3)
                         (\<lambda>ws4. if iml_get (snd ws4) then State_add_iml_osc_getters ws4 else (Inr (), ws4))
                  else (Inr (), ws3)))"

text \<open>The truth value of \<^verbatim>\<open>self.iml\<close> and \<^verbatim>\<open>self.osc\<close>.\<close>

fun truthy :: "layer \<Rightarrow> bool" where
  "truthy (Flag b) = b"
| "truthy Layer = True"

definition State_setup_accessors ::
  "('v, 'a) ext \<Rightarrow> 'a tolvera \<times> ('v, 'a) State \<Rightarrow> flag option \<Rightarrow> flag option
     \<Rightarrow> (error + unit) \<times> 'a tolvera \<times> ('v, 'a) State" where
  "State_setup_accessors x ws iml_flag osc_flag =
     (case tv (snd ws) of
        NoContext \<Rightarrow> (Inl (AttributeError ''name_clean''), ws)
      | Context \<Rightarrow>
         (let s1 = (snd ws)\<lparr>setter_name := name_clean (fst ws) @ ''_set_'' @ name (snd ws)\<rparr>;
              s2 = s1\<lparr>getter_name := name_clean (fst ws) @ ''_get_'' @ name s1\<rparr>;
              s3 = State_handle_accessor_flags s2 iml_flag osc_flag
          in and_then
               (if tv_iml (fst ws) \<noteq> None \<and> truthy (iml s3)
                then State_setup_iml_mapping (fst ws, s3) else (Inr (), (fst ws, s3)))
               (\<lambda>ws1. if tv_osc (fst ws1) \<noteq> None \<and> truthy (osc (snd ws1))
                      then State_setup_osc_mapping x ws1 else (Inr (), ws1))))"

text \<open>
  \<^verbatim>\<open>osc_getter\<close>: the read goes through \<^verbatim>\<open>self.get\<close>, looked up on the block; a value
  that is not \<^verbatim>\<open>None\<close> is sent back on the route of the getter's name.
\<close>

definition State_osc_getter ::
  "('v, 'a) ext \<Rightarrow> 'a tolvera \<times> ('v, 'a) State \<Rightarrow> int \<Rightarrow> int \<Rightarrow> string
     \<Rightarrow> (error + 'a option) \<times> 'a tolvera \<times> ('v, 'a) State" where
  "State_osc_getter x ws i j attribute =
     (case State_getattr ''get'' of
        Inl e \<Rightarrow> (Inl e, ws)
      | Inr g \<Rightarrow>
         (case call_member x g (i, j) attribute of
            Inl e \<Rightarrow> (Inl e, ws)
          | Inr ret \<Rightarrow>
             (case ret of
                None \<Rightarrow> (Inr ret, ws)
              | Some val \<Rightarrow>
                 (case osc_map ws of
                    Inl e \<Rightarrow> (Inl e, ws)
                  | Inr ol \<Rightarrow>
                     (let route = pascal_to_path x (getter_name (snd ws)) in
                        (Inr ret,
                         ((fst ws)\<lparr>tv_osc := Some (ol\<lparr>sent := sent ol @
                              [((route, attribute, val), client_name ol)]\<rparr>)\<rparr>, snd ws)))))))"

subsection \<open>Construction\<close>

definition State_create_struct_field ::
  "('v, 'a) ext \<Rightarrow> ('v, 'a) State \<Rightarrow> 'v schema \<Rightarrow> shape_arg \<Rightarrow> 'v option
     \<Rightarrow> (error + unit) \<times> ('v, 'a) State" where
  "State_create_struct_field x s dct shp methods =
     (let s1 = s\<lparr>dict := dct\<rparr>;
          s2 = s1\<lparr>shape := (case shp of ShInt n \<Rightarrow> [n] | ShTuple t \<Rightarrow> t)\<rparr>
      in case ti_struct_field x (map (\<lambda>(k, v). (k, fst v)) (dict s2)) methods (shape s2) of
           Inl e \<Rightarrow> (Inl e, s2)
         | Inr f \<Rightarrow> (Inr (), s2\<lparr>field := f\<rparr>))"

fun nddict_entries ::
  "('v, 'a) ext \<Rightarrow> 'v schema \<Rightarrow> error + (string \<times> (nptype \<times> 'v \<times> 'v)) list" where
  "nddict_entries x [] = Inr []"
| "nddict_entries x ((k, (titype, min_val, max_val)) # kvs) =
     (case TiNpTypeMap x titype of
        None \<Rightarrow> Inl NotImplementedError
      | Some nptype \<Rightarrow>
         (case nddict_entries x kvs of
            Inl e \<Rightarrow> Inl e
          | Inr nd \<Rightarrow> Inr ((k, (nptype, min_val, max_val)) # nd)))"

definition State_create_npndarray_dict ::
  "('v, 'a) ext \<Rightarrow> ('v, 'a) State \<Rightarrow> (error + unit) \<times> ('v, 'a) State" where
  "State_create_npndarray_dict x s =
     (case nddict_entries x (dict s) of
        Inl e \<Rightarrow> (Inl e, s)
      | Inr nd \<Rightarrow>
         (let s1 = s\<lparr>nddict := NpNdarrayDict_init (np_fill x) nd (shape s)\<rparr>
          in (Inr (), s1\<lparr>size' := nd_size (nddict s1)\<rparr>)))"

definition State_setup_data ::
  "('v, 'a) ext \<Rightarrow> ('v, 'a) State \<Rightarrow> 'v schema \<Rightarrow> shape_arg \<Rightarrow> bool \<Rightarrow> 'v option
     \<Rightarrow> (error + unit) \<times> ('v, 'a) State" where
  "State_setup_data x s dct shp randomise methods =
     and_then (State_create_struct_field x s dct shp methods)
    (\<lambda>s1. and_then (State_create_npndarray_dict x s1)
    (\<lambda>s2. if randomise then State_randomise x s2 else (Inr (), s2)))"

text \<open>
  \<^verbatim>\<open>State.__init__\<close>. The record has every attribute from the start; an attribute holds
  a placeholder until the constructor assigns it. A constructor that raises yields no
  block, and what it has registered with the layers stays registered.
\<close>

definition State_init ::
  "('v, 'a) ext \<Rightarrow> 'a tolvera \<Rightarrow> ctxref \<Rightarrow> string option \<Rightarrow> 'v schema \<Rightarrow> shape_arg option
     \<Rightarrow> flag option \<Rightarrow> flag option \<Rightarrow> bool \<Rightarrow> 'v option
     \<Rightarrow> (error + ('v, 'a) State) \<times> 'a tolvera" where
  "State_init x w tolvera nm state shp iml_flag osc_flag randomise methods =
     (case nm of
        None \<Rightarrow> (Inl AssertionError, w)
      | Some n \<Rightarrow>
         (let s0 = \<lparr>tv = tolvera, name = n, dict = [], shape = [], field = [],
                    nddict = \<lparr>nd_dict = [], nd_shape = [], data = []\<rparr>, size' = 0,
                    setter_name = [], getter_name = [], iml = Flag False, iml_get = False,
                    iml_set = False, osc = Flag False, osc_get = False, osc_set = False\<rparr>;
              shp1 = (case shp of None \<Rightarrow> ShInt 1 | Some sh \<Rightarrow> sh)
          in case State_setup_data x s0 state shp1 randomise methods of
               (Inl e, s1) \<Rightarrow> (Inl e, w)
             | (Inr u, s1) \<Rightarrow>
                (case State_setup_accessors x (w, s1) iml_flag osc_flag of
                   (Inl e, ws) \<Rightarrow> (Inl e, fst ws)
                 | (Inr u, ws) \<Rightarrow> (Inr (snd ws), fst ws))))"

section \<open>The registry (\<^verbatim>\<open>class StateDict\<close>)\<close>

text \<open>
  The value given to \<^verbatim>\<open>set\<close> and \<^verbatim>\<open>add\<close>: a \<^verbatim>\<open>dict\<close> of keyword arguments or a
  \<^verbatim>\<open>tuple\<close> of positional arguments for \<^verbatim>\<open>State\<close>, an \<^verbatim>\<open>int\<close>, the session context, or
  any other object. The arguments a dict or tuple binds are a record: a parameter it
  leaves out is \<open>None\<close>, and \<open>kw_unexpected\<close> says that the dict has a key that is no
  free parameter of \<^verbatim>\<open>State.__init__\<close> (\<^verbatim>\<open>tolvera\<close> and \<^verbatim>\<open>name\<close> are passed already), or
  that the tuple has more than six elements; Python then raises TypeError, as it does
  when the required \<^verbatim>\<open>state\<close> is missing.
\<close>

record 'v state_kwargs =
  kw_state :: "'v schema option"
  kw_shape :: "shape_arg option"
  kw_iml :: "flag option"
  kw_osc :: "flag option"
  kw_randomise :: "bool option"
  kw_methods :: "'v option"
  kw_unexpected :: bool

datatype 'v pyarg =
    PyDict "'v state_kwargs"
  | PyTuple "'v state_kwargs"
  | PyInt int
  | PyCtx
  | PyOther

text \<open>What the registry holds under a key.\<close>

datatype ('v, 'a) pyobj = Ctx | IntVal int | Other | Block "('v, 'a) State"

text \<open>
  Modelled from the spec: the base class \<^verbatim>\<open>dotdict\<close> comes from the absent module
  \<^verbatim>\<open>utils\<close>. The spec describes the registry as a mapping from names to blocks whose
  dotted attribute assignment is intercepted by \<^verbatim>\<open>set\<close>, with the accounting field
  \<^verbatim>\<open>size\<close> among its keys: \<^verbatim>\<open>dotdict\<close> is a \<^verbatim>\<open>dict\<close> whose attribute read \<^verbatim>\<open>self.k\<close> is
  \<^verbatim>\<open>self.get(k)\<close>. Here it is an association list in insertion order; \<^verbatim>\<open>k in self\<close> is
  \<open>map_of r k \<noteq> None\<close> and \<^verbatim>\<open>self[k] = v\<close> is \<open>AList.update k v r\<close>.
\<close>

type_synonym ('v, 'a) StateDict = "(string \<times> ('v, 'a) pyobj) list"

fun is_dict :: "'v pyarg \<Rightarrow> bool" where
  "is_dict (PyDict kw) = True"
| "is_dict _ = False"

fun is_tuple :: "'v pyarg \<Rightarrow> bool" where
  "is_tuple (PyTuple kw) = True"
| "is_tuple _ = False"

fun is_int :: "'v pyarg \<Rightarrow> bool" where
  "is_int (PyInt n) = True"
| "is_int _ = False"

fun stored :: "'v pyarg \<Rightarrow> ('v, 'a) pyobj" where
  "stored (PyInt n) = IntVal n"
| "stored PyCtx = Ctx"
| "stored _ = Other"

text \<open>\<^verbatim>\<open>self.tv\<close>, as the constructor of a block receives it.\<close>

definition self_tv :: "('v, 'a) StateDict \<Rightarrow> ctxref" where
  "self_tv r = (case map_of r ''tv'' of Some Ctx \<Rightarrow> Context | _ \<Rightarrow> NoContext)"

text \<open>
  The calls \<^verbatim>\<open>State(self.tv, name=name, **kwargs)\<close> and \<^verbatim>\<open>State(self.tv, name, *kwargs)\<close>:
  binding the arguments, then \<^verbatim>\<open>State.__init__\<close>.
\<close>

definition State_call ::
  "('v, 'a) ext \<Rightarrow> 'a tolvera \<Rightarrow> ctxref \<Rightarrow> string \<Rightarrow> 'v state_kwargs
     \<Rightarrow> (error + ('v, 'a) State) \<times> 'a tolvera" where
  "State_call x w tolvera nm kw =
     (case kw_state kw of
        None \<Rightarrow> (Inl TypeError, w)
      | Some state \<Rightarrow>
         (if kw_unexpected kw then (Inl TypeError, w)
          else State_init x w tolvera (Some nm) state (kw_shape kw) (kw_iml kw) (kw_osc kw)
                 (case kw_randomise kw of None \<Rightarrow> True | Some b \<Rightarrow> b) (kw_methods kw)))"

text \<open>
  \<^verbatim>\<open>self.size += self[name].size\<close>. The read \<^verbatim>\<open>self.size\<close> is \<^verbatim>\<open>self.get('size')\<close>; the
  sum raises TypeError unless it is an \<^verbatim>\<open>int\<close>. The assignment goes through
  \<^verbatim>\<open>__setattr__\<close> to \<^verbatim>\<open>set('size', n)\<close>, which passes the name \<^verbatim>\<open>size\<close> on to \<^verbatim>\<open>add\<close>, whose
  second branch stores the integer.
\<close>

definition incr_size :: "('v, 'a) StateDict \<Rightarrow> string \<Rightarrow> error + ('v, 'a) StateDict" where
  "incr_size r nm =
     (case map_of r nm of
        None \<Rightarrow> Inl (KeyError nm)
      | Some (Block s) \<Rightarrow>
         (case map_of r ''size'' of
            Some (IntVal n) \<Rightarrow> Inr (AList.update ''size'' (IntVal (n + int (size' s))) r)
          | _ \<Rightarrow> Inl TypeError)
      | Some _ \<Rightarrow> Inl (AttributeError ''size''))"

definition StateDict_add ::
  "('v, 'a) ext \<Rightarrow> ('v, 'a) StateDict \<times> 'a tolvera \<Rightarrow> string \<Rightarrow> 'v pyarg
     \<Rightarrow> (error + unit) \<times> ('v, 'a) StateDict \<times> 'a tolvera" where
  "StateDict_add x rw nm kwargs =
     (if nm = ''tv'' \<and> \<not> is_dict kwargs \<and> \<not> is_tuple kwargs
      then (Inr (), (AList.update nm (stored kwargs) (fst rw), snd rw))
      else if nm = ''size'' \<and> is_int kwargs
      then (Inr (), (AList.update nm (stored kwargs) (fst rw), snd rw))
      else
        (case kwargs of
           PyDict kw \<Rightarrow>
             (case State_call x (snd rw) (self_tv (fst rw)) nm kw of
                (Inl e, w) \<Rightarrow> (Inl e, (fst rw, w))
              | (Inr s, w) \<Rightarrow>
                 (let r1 = AList.update nm (Block s) (fst rw) in
                  case incr_size r1 nm of
                    Inl e \<Rightarrow> (Inl e, (r1, w))
                  | Inr r2 \<Rightarrow> (Inr (), (r2, w))))
         | PyTuple kw \<Rightarrow>
             (case State_call x (snd rw) (self_tv (fst rw)) nm kw of
                (Inl e, w) \<Rightarrow> (Inl e, (fst rw, w))
              | (Inr s, w) \<Rightarrow>
                 (let r1 = AList.update nm (Block s) (fst rw) in
                  case incr_size r1 nm of
                    Inl e \<Rightarrow> (Inl e, (r1, w))
                  | Inr r2 \<Rightarrow> (Inr (), (r2, w))))
         | _ \<Rightarrow> (Inl TypeError, rw)))"

text \<open>
  \<^verbatim>\<open>set\<close>, which is also \<^verbatim>\<open>__setattr__\<close>: every \<^verbatim>\<open>except\<close> clause re-raises what
  \<^verbatim>\<open>add\<close> raised.
\<close>

definition StateDict_set ::
  "('v, 'a) ext \<Rightarrow> ('v, 'a) StateDict \<times> 'a tolvera \<Rightarrow> string \<Rightarrow> 'v pyarg
     \<Rightarrow> (error + unit) \<times> ('v, 'a) StateDict \<times> 'a tolvera" where
  "StateDict_set x rw nm kwargs =
     (if map_of (fst rw) nm \<noteq> None \<and> nm \<noteq> ''size'' then (Inl ValueError, rw)
      else StateDict_add x rw nm kwargs)"


text \<open>
  \<^verbatim>\<open>get_size\<close> and \<^verbatim>\<open>from_vec\<close> look the blocks up in \<^verbatim>\<open>self.tv.s\<close>, the registry of the
  session context, which is the argument \<open>tv_s\<close>; \<^verbatim>\<open>self\<close> only has to hold the context
  under \<^verbatim>\<open>tv\<close>. \<^verbatim>\<open>states\<close> is one name or a list of names.
\<close>

datatype names = One string | Many "string list"

fun block_size :: "('v, 'a) StateDict \<Rightarrow> string \<Rightarrow> error + nat" where
  "block_size tv_s state =
     (case map_of tv_s state of
        None \<Rightarrow> Inl (KeyError state)
      | Some (Block s) \<Rightarrow> Inr (size' s)
      | Some _ \<Rightarrow> Inl (AttributeError ''size''))"

fun sizes :: "('v, 'a) StateDict \<Rightarrow> string list \<Rightarrow> error + nat list" where
  "sizes tv_s [] = Inr []"
| "sizes tv_s (state # states) =
     (case block_size tv_s state of
        Inl e \<Rightarrow> Inl e
      | Inr n \<Rightarrow> (case sizes tv_s states of Inl e \<Rightarrow> Inl e | Inr ns \<Rightarrow> Inr (n # ns)))"

definition StateDict_get_size ::
  "('v, 'a) StateDict \<Rightarrow> ('v, 'a) StateDict \<Rightarrow> names \<Rightarrow> error + nat" where
  "StateDict_get_size self tv_s states =
     (let states' = (case states of One state \<Rightarrow> [state] | Many l \<Rightarrow> l) in
      case self_tv self of
        NoContext \<Rightarrow> (if states' = [] then Inr 0 else Inl (AttributeError ''s''))
      | Context \<Rightarrow> (case sizes tv_s states' of Inl e \<Rightarrow> Inl e | Inr ns \<Rightarrow> Inr (sum_list ns)))"

fun from_vec_loop ::
  "('v, 'a) StateDict \<Rightarrow> ('v, 'a) StateDict \<Rightarrow> string list \<Rightarrow> 'a list \<Rightarrow> nat
     \<Rightarrow> (error + unit) \<times> ('v, 'a) StateDict" where
  "from_vec_loop self tv_s [] vector vec_start = (Inr (), tv_s)"
| "from_vec_loop self tv_s (state # states) vector vec_start =
     (case self_tv self of
        NoContext \<Rightarrow> (Inl (AttributeError ''s''), tv_s)
      | Context \<Rightarrow>
         (case map_of tv_s state of
            None \<Rightarrow> (Inl (KeyError state), tv_s)
          | Some (Block s) \<Rightarrow>
             (let vec = take (size' s) (drop vec_start vector) in
              case State_from_vec s vec of
                (Inl e, s') \<Rightarrow> (Inl e, AList.update state (Block s') tv_s)
              | (Inr u, s') \<Rightarrow>
                  from_vec_loop self (AList.update state (Block s') tv_s) states vector
                    (vec_start + size' s'))
          | Some _ \<Rightarrow> (Inl (AttributeError ''size''), tv_s)))"

definition StateDict_from_vec ::
  "('v, 'a) StateDict \<Rightarrow> ('v, 'a) StateDict \<Rightarrow> string list \<Rightarrow> 'a list
     \<Rightarrow> (error + unit) \<times> ('v, 'a) StateDict" where
  "StateDict_from_vec self tv_s states vector =
     (case StateDict_get_size self tv_s (Many states) of
        Inl e \<Rightarrow> (Inl e, tv_s)
      | Inr sizes_sum \<Rightarrow>
         (if sizes_sum \<noteq> length vector then (Inl AssertionError, tv_s)
          else from_vec_loop self tv_s states vector 0))"

section \<open>Notions used in the properties\<close>

subsection \<open>Blocks and their vectors\<close>

text \<open>
  A block is consistent when the layout of its device field is the layout its mirror
  declares, and its \<^verbatim>\<open>size\<close> is the mirror's size (the spec's invariant
  \<^verbatim>\<open>size == host_mirror.size\<close>).
\<close>

definition consistent :: "('v, 'a) State \<Rightarrow> bool" where
  "consistent s \<longleftrightarrow> layout_of (field s) = nd_layout (nddict s) \<and> size' s = nd_size (nddict s)"

text \<open>The block after a pull of the device state, and the vector of its device state.\<close>

definition pull :: "('v, 'a) State \<Rightarrow> ('v, 'a) State" where
  "pull s = s\<lparr>nddict := (nddict s)\<lparr>data := field s\<rparr>\<rparr>"

definition vec_of :: "('v, 'a) State \<Rightarrow> 'a list" where
  "vec_of s = concat (map snd (field s))"

definition block_of :: "('v, 'a) StateDict \<Rightarrow> string \<Rightarrow> ('v, 'a) State option" where
  "block_of tv_s n = (case map_of tv_s n of Some (Block s) \<Rightarrow> Some s | _ \<Rightarrow> None)"


subsection \<open>Device state is authoritative\<close>




subsection \<open>The size ledger\<close>





subsection \<open>What is registered with the layers\<close>

text \<open>
  The routes registered with the routing layer (none when the layer is off), the
  handler of a registration, the registration that \<^verbatim>\<open>add_osc_getters\<close> makes for a schema
  entry, and whether the three conversions of an entry succeed.
\<close>

definition routes_of :: "'a tolvera \<Rightarrow> reg list" where
  "routes_of w = (case tv_osc w of None \<Rightarrow> [] | Some ol \<Rightarrow> routes ol)"





section \<open>An example session\<close>

text \<open>
  An instance of the collaborators, to run the model on concrete inputs. Element type
  \<open>0\<close> is a scalar; the backend allocates zeros; every draw is the lower bound; the
  per-attribute codecs address one array of the mirror, and the slice codecs the cells
  from \<open>sl ! 0\<close> up to \<open>sl ! 1\<close> of a one-dimensional block. The schema is the one of the
  spec's example, \<^verbatim>\<open>{x: (float, -1, 1), y: (float, -1, 1)}\<close> with shape \<^verbatim>\<open>(4,)\<close>.
\<close>

definition example_schema :: "int schema" where
  "example_schema = [(''x'', (0, - 1, 1)), (''y'', (0, - 1, 1))]"

definition example_ext :: "(int, int) ext" where
  "example_ext =
     \<lparr>TiNpTypeMap = (\<lambda>t. if t = 0 then Some 1 else None),
      ti_struct_field = (\<lambda>tys methods shp.
         Inr (map (\<lambda>(k, t). (k, replicate (prod_list shp) 0)) tys)),
      np_fill = 0,
      np_draw = (\<lambda>k mn mx i. mn),
      py_int = Inr,
      pascal_to_path = (\<lambda>nm. ''/'' @ nm),
      call_member = (\<lambda>m ij attribute. Inr None),
      np_attr_from_vec = (\<lambda>m attr vec.
         case map_of (data m) attr of
           None \<Rightarrow> Inl (KeyError attr)
         | Some xs \<Rightarrow>
             if length vec \<noteq> length xs then Inl SizeMismatchError
             else Inr (m\<lparr>data := AList.update attr vec (data m)\<rparr>)),
      np_attr_to_vec = (\<lambda>m attr.
         case map_of (data m) attr of None \<Rightarrow> Inl (KeyError attr) | Some xs \<Rightarrow> Inr xs),
      np_slice_from_vec = (\<lambda>m sl vec.
         if length vec \<noteq> length (data m) * (nat (sl ! 1) - nat (sl ! 0))
         then Inl SizeMismatchError
         else Inr (m\<lparr>data := map (\<lambda>(i, (k, xs)).
                 (k, take (nat (sl ! 0)) xs
                     @ take (nat (sl ! 1) - nat (sl ! 0))
                         (drop (i * (nat (sl ! 1) - nat (sl ! 0))) vec)
                     @ drop (nat (sl ! 1)) xs)) (enumerate 0 (data m))\<rparr>)),
      np_slice_to_vec = (\<lambda>m sl.
         Inr (concat (map (\<lambda>(k, xs).
                take (nat (sl ! 1) - nat (sl ! 0)) (drop (nat (sl ! 0)) xs)) (data m)))),
      np_attr_slice_from_vec = (\<lambda>m attr sl vec.
         case map_of (data m) attr of
           None \<Rightarrow> Inl (KeyError attr)
         | Some xs \<Rightarrow>
             if length vec \<noteq> nat (sl ! 1) - nat (sl ! 0) then Inl SizeMismatchError
             else Inr (m\<lparr>data := AList.update attr
                    (take (nat (sl ! 0)) xs @ vec @ drop (nat (sl ! 1)) xs) (data m)\<rparr>)),
      np_attr_slice_to_vec = (\<lambda>m attr sl.
         case map_of (data m) attr of
           None \<Rightarrow> Inl (KeyError attr)
         | Some xs \<Rightarrow> Inr (take (nat (sl ! 1) - nat (sl ! 0)) (drop (nat (sl ! 0)) xs)))\<rparr>"

definition example_tv :: "int tolvera" where
  "example_tv = \<lparr>name_clean = ''tolvera'', tv_iml = Some [],
                 tv_osc = Some \<lparr>routes = [], sent = [], client_name = ''client''\<rparr>\<rparr>"

definition example_kwargs :: "int state_kwargs" where
  "example_kwargs =
     \<lparr>kw_state = Some example_schema, kw_shape = Some (ShTuple [4]), kw_iml = None,
      kw_osc = None, kw_randomise = None, kw_methods = None, kw_unexpected = False\<rparr>"

text \<open>The registry after \<^verbatim>\<open>__init__\<close>, and after the declaration of the block \<^verbatim>\<open>p\<close>.\<close>

definition example_registry :: "(int, int) StateDict" where
  "example_registry = [(''tv'', Ctx), (''size'', IntVal 0)]"

definition example_declared :: "(int, int) StateDict" where
  "example_declared =
     fst (snd (StateDict_set example_ext (example_registry, example_tv) ''p''
                 (PyDict example_kwargs)))"

definition example_block :: "(int, int) State" where
  "example_block = the (block_of example_declared ''p'')"

text \<open>The registry after the declaration of a second block \<^verbatim>\<open>q\<close>, of shape \<^verbatim>\<open>2\<close>.\<close>

definition example_two :: "(int, int) StateDict" where
  "example_two =
     fst (snd (StateDict_set example_ext (example_declared, example_tv) ''q''
                 (PyDict (example_kwargs\<lparr>kw_shape := Some (ShInt 2)\<rparr>))))"

section \<open>Properties of the vector codecs\<close>

subsection \<open>The mirror and the two synchronisations\<close>

lemma unflatten_concat:
  "unflatten (layout_of d) (concat (map snd d) @ rest) = d"
  by (induction d arbitrary: rest) (auto simp: layout_of_def)

lemma length_concat_layout:
  "length (concat (map snd d)) = sum_list (map snd (layout_of d))"
  by (induction d) (auto simp: layout_of_def)

lemma nd_layout_data [simp]: "nd_layout (m\<lparr>data := d\<rparr>) = nd_layout m"
  by (simp add: nd_layout_def)

lemma nd_size_data [simp]: "nd_size (m\<lparr>data := d\<rparr>) = nd_size m"
  by (simp add: nd_size_def)

lemma to_nddict_cases:
  "State_to_nddict s =
     (if layout_of (field s) = nd_layout (nddict s)
      then (Inr (), s\<lparr>nddict := (nddict s)\<lparr>data := field s\<rparr>\<rparr>)
      else (Inl ShapeMismatchError, s))"
  by (simp add: State_to_nddict_def nd_set_data_def field_to_numpy_def)

lemma from_nddict_cases:
  "State_from_nddict s =
     (if layout_of (data (nddict s)) = layout_of (field s)
      then (Inr (), s\<lparr>field := data (nddict s)\<rparr>)
      else (Inl ShapeMismatchError, s))"
  by (simp add: State_from_nddict_def field_from_numpy_def nd_get_data_def)

lemma pull_simps [simp]:
  "field (pull s) = field s" "size' (pull s) = size' s" "data (nddict (pull s)) = field s"
  "nd_layout (nddict (pull s)) = nd_layout (nddict s)" "pull (pull s) = pull s"
  "vec_of (pull s) = vec_of s" "consistent (pull s) = consistent s"
  by (simp_all add: pull_def vec_of_def consistent_def)

lemma to_vec_consistent:
  "layout_of (field s) = nd_layout (nddict s) \<Longrightarrow> State_to_vec s = (Inr (vec_of s), pull s)"
  by (simp add: State_to_vec_def to_nddict_cases nd_to_vec_def pull_def vec_of_def)

lemma from_vec_synced:
  assumes "layout_of (field s) = nd_layout (nddict s)" "data (nddict s) = field s"
  shows "State_from_vec s (vec_of s) = (Inr (), s)"
proof -
  have 1: "State_to_nddict s = (Inr (), s)"
    using assms by (simp add: to_nddict_cases)
  have 2: "nd_from_vec (nddict s) (concat (map snd (field s))) = Inr (nddict s)"
    using assms unflatten_concat [of "field s" "[]"]
    by (simp add: nd_from_vec_def nd_size_def length_concat_layout)
  have 3: "State_from_nddict s = (Inr (), s)"
    using assms by (simp add: from_nddict_cases)
  show ?thesis
    by (simp add: State_from_vec_def vec_of_def 1 2 3)
qed


subsection \<open>Loading a block's own vector\<close>

text \<open>
  Claim C5. For a block whose device field has the layout its mirror declares,
  \<^verbatim>\<open>to_vec()\<close> returns a vector, loading that vector with \<^verbatim>\<open>from_vec\<close> succeeds and
  changes nothing, the device field is the one before the two calls, and a further
  \<^verbatim>\<open>to_vec()\<close> returns the same vector.
\<close>

theorem from_vec_to_vec_noop:
  assumes "layout_of (field s) = nd_layout (nddict s)"
  shows "\<exists>v s1. State_to_vec s = (Inr v, s1) \<and> State_from_vec s1 v = (Inr (), s1)
           \<and> field s1 = field s \<and> State_to_vec s1 = (Inr v, s1)"
proof -
  have "State_to_vec s = (Inr (vec_of s), pull s)"
    using assms by (rule to_vec_consistent)
  moreover have "State_from_vec (pull s) (vec_of s) = (Inr (), pull s)"
    using from_vec_synced [of "pull s"] assms by simp
  moreover have "State_to_vec (pull s) = (Inr (vec_of s), pull s)"
    using to_vec_consistent [of "pull s"] assms by simp
  ultimately show ?thesis by simp
qed

theorem from_vec_to_vec_noop_witness:
  "layout_of (field example_block) = nd_layout (nddict example_block)
   \<and> (\<exists>v s1. State_to_vec example_block = (Inr v, s1) \<and> State_from_vec s1 v = (Inr (), s1)
           \<and> field s1 = field example_block \<and> State_to_vec s1 = (Inr v, s1))"
proof -
  have h: "layout_of (field example_block) = nd_layout (nddict example_block)"
    by code_simp
  show ?thesis
    using h from_vec_to_vec_noop [OF h] by simp
qed

text \<open>
  The spec's example: after loading eight zeros into the block of the example session,
  \<^verbatim>\<open>to_vec()\<close> returns eight zeros.
\<close>

lemma example_load_zeros:
  "fst (State_from_vec example_block (replicate 8 0)) = Inr ()
   \<and> fst (State_to_vec (snd (State_from_vec example_block (replicate 8 0))))
       = Inr (replicate 8 0)
   \<and> size' example_block = 8"
  by code_simp

subsection \<open>Every codec pulls first, every writing codec pushes last\<close>






section \<open>Properties of the registry\<close>

subsection \<open>The size ledger\<close>





lemma set_size_int:
  "StateDict_set x (r, w) ''size'' (PyInt n) = (Inr (), (AList.update ''size'' (IntVal n) r, w))"
  by (simp add: StateDict_set_def StateDict_add_def)












subsection \<open>Duplicate names\<close>

text \<open>
  Claim C2. \<^verbatim>\<open>set\<close> (and so \<^verbatim>\<open>__setattr__\<close>) with a name that the registry holds and that
  is not \<^verbatim>\<open>size\<close> raises ValueError, whatever the value, and leaves the registry, with its
  size entry and its blocks, and the session as they were. For the name \<^verbatim>\<open>size\<close> there
  is no such check: \<^verbatim>\<open>set\<close> is \<^verbatim>\<open>add\<close>, and an integer is stored under \<^verbatim>\<open>size\<close> whether
  the registry holds the name or not.
\<close>

theorem set_duplicate_name:
  "(map_of r nm \<noteq> None \<and> nm \<noteq> ''size''
      \<longrightarrow> StateDict_set x (r, w) nm kwargs = (Inl ValueError, (r, w)))
   \<and> StateDict_set x (r, w) ''size'' kwargs = StateDict_add x (r, w) ''size'' kwargs
   \<and> StateDict_set x (r, w) ''size'' (PyInt n)
       = (Inr (), (AList.update ''size'' (IntVal n) r, w))"
  by (simp add: StateDict_set_def StateDict_add_def)

theorem set_duplicate_name_witness:
  "map_of example_declared ''p'' \<noteq> None \<and> ''p'' \<noteq> ''size''
   \<and> StateDict_set example_ext (example_declared, example_tv) ''p'' (PyDict example_kwargs)
       = (Inl ValueError, (example_declared, example_tv))"
proof -
  have a: "map_of example_declared ''p'' \<noteq> None"
    by code_simp
  show ?thesis
    using a set_duplicate_name [where r = example_declared and nm = "''p''"
        and x = example_ext and w = example_tv and kwargs = "PyDict example_kwargs"]
    by simp
qed

text \<open>
  The exemption is by name only: a block declared under \<^verbatim>\<open>size\<close> takes the place of the
  accumulator, and the declaration then raises TypeError at \<^verbatim>\<open>self.size += ...\<close>.
\<close>

lemma block_named_size:
  "fst (StateDict_set example_ext (example_declared, example_tv) ''size'' (PyDict example_kwargs))
     = Inl TypeError
   \<and> block_of (fst (snd (StateDict_set example_ext (example_declared, example_tv) ''size''
         (PyDict example_kwargs)))) ''size'' \<noteq> None"
  by code_simp

subsection \<open>Loading a vector across blocks\<close>

lemma block_of_Some: "block_of tv_s n = Some s \<longleftrightarrow> map_of tv_s n = Some (Block s)"
  by (auto simp: block_of_def split: option.splits pyobj.splits)


lemma sizes_blocks:
  assumes "\<forall>n\<in>set states. \<exists>s. block_of tv_s n = Some s"
  shows "sizes tv_s states = Inr (map (\<lambda>n. size' (the (block_of tv_s n))) states)"
  using assms
proof (induction states)
  case Nil
  then show ?case by simp
next
  case (Cons n ns)
  then obtain s where "block_of tv_s n = Some s" by auto
  then have "map_of tv_s n = Some (Block s)" "block_of tv_s n = Some s"
    by (simp_all add: block_of_Some)
  with Cons show ?case by simp
qed

lemma get_size_blocks:
  assumes "self_tv self = Context" and "\<forall>n\<in>set states. \<exists>s. block_of tv_s n = Some s"
  shows "StateDict_get_size self tv_s (Many states)
           = Inr (sum_list (map (\<lambda>n. size' (the (block_of tv_s n))) states))"
  using assms by (simp add: StateDict_get_size_def sizes_blocks)

text \<open>
  Claim C3. When every name of the list is a block of the session's registry and the
  sum of the sizes of the named blocks is not the length of the vector, \<^verbatim>\<open>from_vec\<close>
  raises the AssertionError of its size check and the registry, every block of it
  included, is as it was: the check comes before the loop that loads the blocks.
\<close>

theorem from_vec_size_mismatch:
  assumes "self_tv self = Context"
    and "\<forall>n\<in>set states. \<exists>s. map_of tv_s n = Some (Block s)"
    and "sum_list (map (\<lambda>n. size' (the (block_of tv_s n))) states) \<noteq> length vector"
  shows "StateDict_from_vec self tv_s states vector = (Inl AssertionError, tv_s)"
proof -
  have "\<forall>n\<in>set states. \<exists>s. block_of tv_s n = Some s"
    using assms(2) by (simp add: block_of_Some)
  then show ?thesis
    using assms(1,3) by (simp add: StateDict_from_vec_def get_size_blocks)
qed

theorem from_vec_size_mismatch_witness:
  "self_tv example_two = Context
   \<and> map_of example_two ''q'' = Some (Block (the (block_of example_two ''q'')))
   \<and> map_of example_two ''p'' = Some (Block (the (block_of example_two ''p'')))
   \<and> sum_list (map (\<lambda>n. size' (the (block_of example_two n))) [''q'', ''p'']) = 12
   \<and> length [1, 2, 3 :: int] = 3
   \<and> StateDict_from_vec example_two example_two [''q'', ''p''] [1, 2, 3]
       = (Inl AssertionError, example_two)"
proof -
  have a: "self_tv example_two = Context"
    by code_simp
  have b: "map_of example_two ''p'' = Some (Block (the (block_of example_two ''p'')))"
    "map_of example_two ''q'' = Some (Block (the (block_of example_two ''q'')))"
    by code_simp+
  have c: "sum_list (map (\<lambda>n. size' (the (block_of example_two n))) [''q'', ''p'']) = 12"
    by code_simp
  have c': "sum_list (map (\<lambda>n. size' (the (block_of example_two n))) [''q'', ''p''])
       \<noteq> length [1, 2, 3 :: int]"
    using c by simp
  have d: "\<forall>n\<in>set [''q'', ''p'']. \<exists>s. map_of example_two n = Some (Block s)"
    using b by simp
  show ?thesis
    using a b c from_vec_size_mismatch [OF a d c'] by simp
qed





section \<open>Properties of the accessor generation\<close>

subsection \<open>Members that the block does not have\<close>

lemma getattr_missing [simp]:
  "State_getattr ''_randomise'' = Inl (AttributeError ''_randomise'')"
  "State_getattr ''get'' = Inl (AttributeError ''get'')"
  by (simp_all add: State_getattr_def State_members_def)

lemma getattr_osc_getter [simp]: "State_getattr ''osc_getter'' = Inr (Member ''osc_getter'')"
  by (simp add: State_getattr_def State_members_def)

text \<open>
  None of the handlers and lengths that \<^verbatim>\<open>add_osc_setters\<close> looks up on the block is a
  member of \<^verbatim>\<open>State\<close>; the class has \<^verbatim>\<open>randomise\<close>, not \<^verbatim>\<open>_randomise\<close>.
\<close>

lemma setter_handlers_missing:
  "list_all (\<lambda>h. State_getattr h = Inl (AttributeError h))
     [''_randomise'', ''set_state_idx_from_list'', ''set_state_row_from_list'',
      ''set_state_col_from_list'', ''set_state_all_from_list'', ''len_state_idx'',
      ''len_state_row'', ''len_state_col'', ''len_state_all'', ''set_attr_idx'',
      ''set_attr_row'', ''set_attr_col'', ''set_attr_all'', ''len_attr_row'',
      ''len_attr_col'', ''len_attr_all'']
   \<and> State_getattr ''randomise'' = Inr (Member ''randomise'')"
  by (simp add: State_getattr_def State_members_def)

lemma add_osc_setters_raises:
  "State_add_osc_setters ws =
     (Inl (AttributeError (if osc (snd ws) = Layer \<and> tv_osc (fst ws) \<noteq> None
                           then ''_randomise'' else ''map'')), ws)"
  by (cases "osc (snd ws)"; cases "tv_osc (fst ws)")
     (simp_all add: State_add_osc_setters_def and_then_def osc_map_def)

text \<open>
  Claim C8, at the failing input: in a session whose routing layer is on, the
  declaration of the block \<^verbatim>\<open>p\<close> with \<^verbatim>\<open>osc='set'\<close> raises AttributeError for
  \<^verbatim>\<open>_randomise\<close>; no route is registered, and the registry does not get the block.
\<close>

theorem osc_set_declaration_raises:
  "StateDict_set example_ext (example_registry, example_tv) ''p''
     (PyDict (example_kwargs\<lparr>kw_osc := Some (FStr ''set'')\<rparr>))
   = (Inl (AttributeError ''_randomise''), (example_registry, example_tv))"
  by code_simp

text \<open>
  Claim C10, at every input: \<^verbatim>\<open>osc_getter\<close> raises AttributeError for \<^verbatim>\<open>get\<close>, which
  \<^verbatim>\<open>State\<close> does not define; it returns no value and sends nothing.
\<close>

theorem osc_getter_raises:
  "State_osc_getter x ws i j attribute = (Inl (AttributeError ''get''), ws)"
  by (simp add: State_osc_getter_def)

subsection \<open>The ranges of the getters\<close>






subsection \<open>Accessors follow the flags and the layers\<close>

lemma handle_get_set_disabled:
  "State_handle_get_set flg = (False, g, s) \<Longrightarrow> \<not> g \<and> \<not> s"
  by (auto simp: State_handle_get_set_def Let_def split: if_splits)


lemma setup_iml_effect:
  assumes "tv_iml (fst ws) = Some l"
  shows "State_setup_iml_mapping ws =
     (Inr (), ((fst ws)\<lparr>tv_iml := Some (l @ (if iml_set (snd ws) then [setter_name (snd ws)] else [])
                                       @ (if iml_get (snd ws) then [getter_name (snd ws)] else []))\<rparr>,
               (snd ws)\<lparr>iml := Layer\<rparr>))"
  using assms
  by (simp add: State_setup_iml_mapping_def State_add_iml_setters_def State_add_iml_getters_def
        iml_add_instance_def and_then_def)

lemma getters_loop_rest:
  "snd (snd (osc_getters_loop x nm kvs ws)) = snd ws
   \<and> tv_iml (fst (snd (osc_getters_loop x nm kvs ws))) = tv_iml (fst ws)"
proof (induction kvs arbitrary: ws)
  case Nil
  then show ?case by simp
next
  case (Cons kv kvs)
  obtain k v where kv: "kv = (k, v)" by (cases kv)
  show ?case
    using Cons.IH
    by (auto simp: kv register_def and_then_def split: sum.splits)
qed



lemma tolvera_update_same: "tv_iml w = v \<Longrightarrow> w\<lparr>tv_iml := v\<rparr> = (w :: 'a tolvera)"
  by auto

lemma routes_of_iml_update [simp]: "routes_of (w\<lparr>tv_iml := v\<rparr>) = routes_of w"
  by (simp add: routes_of_def)

lemma setup_accessors_unfold:
  assumes "tv s = Context"
    and "State_handle_get_set iml_flag = (ie, ig, is)"
    and "State_handle_get_set osc_flag = (oe, og, os)"
  shows "State_setup_accessors x (w, s) iml_flag osc_flag =
     (let s3 = s\<lparr>setter_name := name_clean w @ ''_set_'' @ name s,
                   getter_name := name_clean w @ ''_get_'' @ name s,
                   iml := Flag ie, iml_get := ig, iml_set := is,
                   osc := Flag oe, osc_get := og, osc_set := os\<rparr>;
          w1 = w\<lparr>tv_iml := map_option
                  (\<lambda>l. l @ (if is then [name_clean w @ ''_set_'' @ name s] else [])
                         @ (if ig then [name_clean w @ ''_get_'' @ name s] else [])) (tv_iml w)\<rparr>;
          s4 = (if tv_iml w \<noteq> None \<and> ie then s3\<lparr>iml := Layer\<rparr> else s3)
      in if tv_osc w \<noteq> None \<and> oe then State_setup_osc_mapping x (w1, s4)
         else (Inr (), (w1, s4)))"
proof (cases "tv_iml w")
  case None
  then show ?thesis
    using assms
    by (simp add: State_setup_accessors_def State_handle_accessor_flags_def and_then_def Let_def
          tolvera_update_same)
next
  case (Some l)
  show ?thesis
  proof (cases ie)
    case True
    then show ?thesis
      using assms Some
      by (simp add: State_setup_accessors_def State_handle_accessor_flags_def and_then_def
            Let_def setup_iml_effect)
  next
    case False
    then have "\<not> ig \<and> \<not> is"
      using assms(2) handle_get_set_disabled [of iml_flag ig "is"] by simp
    then show ?thesis
      using assms Some False
      by (simp add: State_setup_accessors_def State_handle_accessor_flags_def and_then_def Let_def
            tolvera_update_same)
  qed
qed




subsection \<open>A constructed block is consistent\<close>

lemma setup_osc_block:
  "\<exists>l. snd (snd (State_setup_osc_mapping x ws)) = (snd ws)\<lparr>osc := l\<rparr>"
proof -
  let ?ws1 = "(fst ws, (snd ws)\<lparr>osc := (case tv_osc (fst ws) of None \<Rightarrow> Flag False | Some ol \<Rightarrow> Layer)\<rparr>)"
  obtain res ws2 where r: "State_add_osc_getters x ?ws1 = (res, ws2)"
    by (cases "State_add_osc_getters x ?ws1")
  have "snd ws2 = snd ?ws1"
    using getters_loop_rest [of x "getter_name (snd ?ws1)" "dict (snd ?ws1)" ?ws1] r
    by (simp add: State_add_osc_getters_def)
  then have "snd (snd (State_setup_osc_mapping x ws)) = snd ?ws1"
    using r
    by (cases res; cases "osc_set (snd ws)"; cases "osc_get (snd ws)")
       (simp_all add: State_setup_osc_mapping_def and_then_def add_osc_setters_raises
          State_add_iml_osc_getters_def)
  then show ?thesis by auto
qed

lemma setup_accessors_data:
  assumes "State_setup_accessors x (w, s) iml_flag osc_flag = (res, (w', s'))"
  shows "field s' = field s \<and> nddict s' = nddict s \<and> size' s' = size' s"
proof (cases "tv s")
  case NoContext
  then show ?thesis using assms by (simp add: State_setup_accessors_def)
next
  case Context
  obtain ie ig "is" where f: "State_handle_get_set iml_flag = (ie, ig, is)"
    by (cases "State_handle_get_set iml_flag")
  obtain oe og os where g: "State_handle_get_set osc_flag = (oe, og, os)"
    by (cases "State_handle_get_set osc_flag")
  show ?thesis
  proof (cases "tv_osc w \<noteq> None \<and> oe")
    case True
    with assms obtain w1 s4 where
      r: "State_setup_osc_mapping x (w1, s4) = (res, (w', s'))"
      and d: "field s4 = field s \<and> nddict s4 = nddict s \<and> size' s4 = size' s"
      unfolding setup_accessors_unfold [OF Context f g] by (simp add: Let_def)
    from setup_osc_block [of x "(w1, s4)"] r obtain l where "s' = s4\<lparr>osc := l\<rparr>"
      by auto
    then show ?thesis using d by simp
  next
    case False
    with assms show ?thesis
      unfolding setup_accessors_unfold [OF Context f g] by (auto simp: Let_def)
  qed
qed

lemma layout_of_draws:
  "layout_of (data (nd_randomise draw m)) = nd_layout m"
  by (simp add: nd_randomise_def layout_of_def nd_layout_def case_prod_unfold)

text \<open>
  A block that \<^verbatim>\<open>State.__init__\<close> returns after randomising it is consistent: the push
  of the drawn values succeeded, so the device field has the layout of the mirror.
\<close>

lemma init_consistent:
  assumes "State_init x w tolvera nm state shp iml_flag osc_flag True methods = (Inr s, w')"
  shows "consistent s"
proof -
  obtain n where n: "nm = Some n"
    using assms by (cases nm) (simp_all add: State_init_def)
  define s0 :: "('a, 'b) State" where "s0 = \<lparr>tv = tolvera, name = n, dict = [], shape = [], field = [],
                    nddict = \<lparr>nd_dict = [], nd_shape = [], data = []\<rparr>, size' = 0,
                    setter_name = [], getter_name = [], iml = Flag False, iml_get = False,
                    iml_set = False, osc = Flag False, osc_get = False, osc_set = False\<rparr>"
  define shp1 where "shp1 = (case shp of None \<Rightarrow> ShInt 1 | Some sh \<Rightarrow> sh)"
  obtain r1 s1 where sd: "State_setup_data x s0 state shp1 True methods = (r1, s1)"
    by (cases "State_setup_data x s0 state shp1 True methods")
  have ok: "r1 = Inr ()" and acc: "\<exists>res. State_setup_accessors x (w, s1) iml_flag osc_flag = (res, (w', s))"
    using assms n sd
    by (auto simp: State_init_def s0_def [symmetric] shp1_def [symmetric] Let_def
             split: sum.splits prod.splits)
  have "consistent s1"
  proof -
    obtain ra sa where a: "State_create_struct_field x s0 state shp1 methods = (ra, sa)"
      by (cases "State_create_struct_field x s0 state shp1 methods")
    obtain rb sb where b: "State_create_npndarray_dict x sa = (rb, sb)"
      by (cases "State_create_npndarray_dict x sa")
    have ra: "ra = Inr ()" and rb: "rb = Inr ()"
      and c: "State_randomise x sb = (Inr (), s1)"
      using sd ok a b
      by (auto simp: State_setup_data_def and_then_def split: sum.splits)
    have sz: "size' sb = nd_size (nddict sb)"
      using b rb by (auto simp: State_create_npndarray_dict_def Let_def split: sum.splits)
    let ?m = "nd_randomise (np_draw x) (nddict sb)"
    have lay: "layout_of (data ?m) = nd_layout (nddict sb)"
      by (rule layout_of_draws)
    have nl: "nd_layout ?m = nd_layout (nddict sb)" "nd_size ?m = nd_size (nddict sb)"
      by (simp_all add: nd_randomise_def)
    have "s1 = sb\<lparr>nddict := ?m, field := data ?m\<rparr>"
      using c by (auto simp: State_randomise_def from_nddict_cases split: if_splits)
    then show ?thesis
      using lay nl sz by (simp add: consistent_def)
  qed
  moreover from acc obtain res where "State_setup_accessors x (w, s1) iml_flag osc_flag = (res, (w', s))"
    by blast
  from setup_accessors_data [OF this] have "field s = field s1 \<and> nddict s = nddict s1 \<and> size' s = size' s1" .
  ultimately show ?thesis by (simp add: consistent_def)
qed

end
